theory Spec2Isabelle
  imports Main "HOL-Library.FSet"
begin

section \<open>Data model of CollapsibleGrid.tsx\<close>

text \<open>
  The repository holds two revisions of \<^verbatim>\<open>CollapsibleGrid.tsx\<close>. Both share the types,
  the constant \<^verbatim>\<open>MIN_EXPANDED\<close>, \<^verbatim>\<open>getCollapsedWidthCh\<close>, \<^verbatim>\<open>initialExpanded\<close> and the
  row effect; they differ in \<^verbatim>\<open>toggle\<close> and in the \<^verbatim>\<open>useMemo\<close> that computes the two grid
  templates. The revision whose \<^verbatim>\<open>toggle\<close> swaps columns is called the swap revision here
  (the spec's strict policy, with the halves templates), the other one the plain revision
  (the spec's permissive policy, with the equal-split templates).

  A JavaScript string is modelled as the list of its code units, which is what
  \<^verbatim>\<open>title.length\<close> counts; a \<^verbatim>\<open>Set<string>\<close> is a finite set of strings. The React nodes of
  a row's blocks are opaque, so their type is a parameter.
\<close>

record HeaderCell =
  id_cell :: string
  title :: string

record 'node Row =
  id_row :: string
  blocks :: "string \<rightharpoonup> 'node"

definition MIN_EXPANDED :: nat where
  "MIN_EXPANDED = 2"

definition getCollapsedWidthCh :: "string \<Rightarrow> nat" where
  "getCollapsedWidthCh t = max (length t + 4) 8"

subsection \<open>Initial state\<close>

text \<open>\<^verbatim>\<open>headers.slice(0, -1)\<close> is the list without its last element.\<close>

definition initialExpanded :: "HeaderCell list \<Rightarrow> string list" where
  "initialExpanded headers =
     (if length headers \<le> MIN_EXPANDED then map id_cell headers
      else map id_cell (butlast headers))"

definition expanded_init :: "HeaderCell list \<Rightarrow> string fset" where
  "expanded_init headers = fset_of_list (initialExpanded headers)"

definition openRows_init :: "'node Row list \<Rightarrow> string fset" where
  "openRows_init rows = fset_of_list (map id_row rows)"

subsection \<open>The row effect\<close>

text \<open>
  The updater passed to \<^verbatim>\<open>setOpenRows\<close> by the effect on \<^verbatim>\<open>rows\<close>: two \<^verbatim>\<open>forEach\<close> loops
  over the new row list, both adding to the same fresh set.
\<close>

definition resyncRows :: "string fset \<Rightarrow> 'node Row list \<Rightarrow> string fset" where
  "resyncRows prev rows =
     (let next0 = fold (\<lambda>row next. if id_row row |\<in>| prev then finsert (id_row row) next else next)
                    rows {||}
      in fold (\<lambda>row next. finsert (id_row row) next) rows next0)"

text \<open>
  The rule as the specification words it, which also needs the previous row list: the ids
  of the new list that were open, united with the ids of the new list that the previous
  list did not have.
\<close>

definition resyncRows_spec :: "'node Row list \<Rightarrow> string fset \<Rightarrow> 'node Row list \<Rightarrow> string fset" where
  "resyncRows_spec prevRows prev rows =
     ffilter (\<lambda>i. i |\<in>| prev) (fset_of_list (map id_row rows))
       |\<union>| ffilter (\<lambda>i. i |\<notin>| fset_of_list (map id_row prevRows)) (fset_of_list (map id_row rows))"

subsection \<open>Toggling a column\<close>

text \<open>The updater of the plain revision.\<close>

definition toggle_plain :: "string fset \<Rightarrow> string \<Rightarrow> string fset" where
  "toggle_plain prev i =
     (let next = prev;
          isExpanded = i |\<in>| prev
      in if isExpanded \<and> fcard prev \<le> MIN_EXPANDED then prev
         else if isExpanded then next |-| {|i|}
         else finsert i next)"

text \<open>
  The updater of the swap revision. \<^verbatim>\<open>collapsedIds[0]\<close> is read only where the list has
  length one.
\<close>

definition toggle_swap :: "HeaderCell list \<Rightarrow> string fset \<Rightarrow> string \<Rightarrow> string fset" where
  "toggle_swap headers prev i =
     (let next = prev;
          isExpanded = i |\<in>| prev;
          expandedIds = map id_cell (filter (\<lambda>h. id_cell h |\<in>| prev) headers);
          collapsedIds = map id_cell (filter (\<lambda>h. id_cell h |\<notin>| prev) headers)
      in if isExpanded then
           (if fcard prev = MIN_EXPANDED then
              (case collapsedIds of
                 [collapsedId] \<Rightarrow> finsert collapsedId next |-| {|i|}
               | _ \<Rightarrow> prev)
            else next |-| {|i|})
         else
           (if length collapsedIds = 1 then finsert i next else finsert i next))"

text \<open>A sequence of clicks, from the initial state.\<close>

definition run_plain :: "HeaderCell list \<Rightarrow> string list \<Rightarrow> string fset" where
  "run_plain headers ids = foldl toggle_plain (expanded_init headers) ids"

definition run_swap :: "HeaderCell list \<Rightarrow> string list \<Rightarrow> string fset" where
  "run_swap headers ids = foldl (toggle_swap headers) (expanded_init headers) ids"

text \<open>The columns a state shows collapsed, in header order.\<close>

definition collapsed :: "HeaderCell list \<Rightarrow> string fset \<Rightarrow> HeaderCell list" where
  "collapsed headers expanded = filter (\<lambda>h. id_cell h |\<notin>| expanded) headers"

definition header_ids :: "HeaderCell list \<Rightarrow> string fset" where
  "header_ids headers = fset_of_list (map id_cell headers)"

section \<open>Grid templates\<close>

text \<open>\<^verbatim>\<open>Array.prototype.join\<close> on an array of strings.\<close>

fun join :: "string \<Rightarrow> string list \<Rightarrow> string" where
  "join sep [] = []"
| "join sep [x] = x"
| "join sep (x # y # ys) = x @ sep @ join sep (y # ys)"

text \<open>The decimal digits a template literal prints for a non-negative integer.\<close>

definition digit_char :: "nat \<Rightarrow> char" where
  "digit_char d = ''0123456789'' ! d"

fun string_of_nat :: "nat \<Rightarrow> string" where
  "string_of_nat n =
     (if n < 10 then [digit_char n] else string_of_nat (n div 10) @ [digit_char (n mod 10)])"

declare string_of_nat.simps [simp del]

subsection \<open>Plain revision: equal split\<close>

definition headerTemplateArr :: "HeaderCell list \<Rightarrow> string fset \<Rightarrow> string list" where
  "headerTemplateArr headers expanded =
     map (\<lambda>header. if id_cell header |\<in>| expanded then ''1fr''
                   else string_of_nat (getCollapsedWidthCh (title header)) @ ''ch'') headers"

definition valueTemplateArr :: "HeaderCell list \<Rightarrow> string fset \<Rightarrow> string list" where
  "valueTemplateArr headers expanded =
     map (\<lambda>header. if id_cell header |\<in>| expanded then ''1fr'' else ''0px'') headers"

definition headerTemplateStr :: "HeaderCell list \<Rightarrow> string fset \<Rightarrow> string" where
  "headerTemplateStr headers expanded = join '' '' (headerTemplateArr headers expanded)"

definition valueTemplateStr :: "HeaderCell list \<Rightarrow> string fset \<Rightarrow> string" where
  "valueTemplateStr headers expanded = join '' '' (valueTemplateArr headers expanded)"

subsection \<open>Swap revision: halves\<close>

text \<open>
  The two \<^verbatim>\<open>headers.map\<close> callbacks share the mutable flag \<^verbatim>\<open>firstExpandedAssigned\<close>; the
  flag is threaded through the list here.
\<close>

fun headerTemplateArr_halves :: "string \<Rightarrow> string \<Rightarrow> bool \<Rightarrow> HeaderCell list \<Rightarrow> string list" where
  "headerTemplateArr_halves collapsedId collapsedWidth firstExpandedAssigned [] = []"
| "headerTemplateArr_halves collapsedId collapsedWidth firstExpandedAssigned (header # rest) =
     (if id_cell header = collapsedId then
        collapsedWidth # headerTemplateArr_halves collapsedId collapsedWidth firstExpandedAssigned rest
      else if \<not> firstExpandedAssigned then
        ''50%'' # headerTemplateArr_halves collapsedId collapsedWidth True rest
      else
        (''calc(50% - '' @ collapsedWidth @ '')'')
          # headerTemplateArr_halves collapsedId collapsedWidth firstExpandedAssigned rest)"

fun valueTemplateArr_halves :: "string \<Rightarrow> bool \<Rightarrow> HeaderCell list \<Rightarrow> string list" where
  "valueTemplateArr_halves collapsedId firstExpandedAssigned [] = []"
| "valueTemplateArr_halves collapsedId firstExpandedAssigned (header # rest) =
     (if id_cell header = collapsedId then
        ''0px'' # valueTemplateArr_halves collapsedId firstExpandedAssigned rest
      else if \<not> firstExpandedAssigned then
        ''50%'' # valueTemplateArr_halves collapsedId True rest
      else
        ''50%'' # valueTemplateArr_halves collapsedId firstExpandedAssigned rest)"

datatype error = TypeError

text \<open>
  \<^verbatim>\<open>collapsedList[0]?.id\<close> is \<^verbatim>\<open>undefined\<close> for an empty list; \<^verbatim>\<open>!collapsedId\<close> holds for
  \<^verbatim>\<open>undefined\<close> and for the empty string. Reading \<^verbatim>\<open>.title\<close> of a \<^verbatim>\<open>find\<close> that found
  nothing would throw. The result pairs the token arrays before they are joined.
\<close>

definition templateArrs_halves ::
  "HeaderCell list \<Rightarrow> string fset \<Rightarrow> error + (string list \<times> string list)" where
  "templateArrs_halves headers expanded =
     (let collapsedList = filter (\<lambda>h. id_cell h |\<notin>| expanded) headers;
          collapsedId = (case collapsedList of [] \<Rightarrow> None | h # _ \<Rightarrow> Some (id_cell h))
      in case collapsedId of
           None \<Rightarrow> Inr (map (\<lambda>_. ''1fr'') headers, map (\<lambda>_. ''1fr'') headers)
         | Some cid \<Rightarrow>
             if cid = [] then Inr (map (\<lambda>_. ''1fr'') headers, map (\<lambda>_. ''1fr'') headers)
             else
               (case find (\<lambda>h. id_cell h = cid) headers of
                  None \<Rightarrow> Inl TypeError
                | Some collapsedHeader \<Rightarrow>
                    let collapsedWidth = string_of_nat (getCollapsedWidthCh (title collapsedHeader)) @ ''ch''
                    in Inr (headerTemplateArr_halves cid collapsedWidth False headers,
                            valueTemplateArr_halves cid False headers)))"

definition templates_halves :: "HeaderCell list \<Rightarrow> string fset \<Rightarrow> error + (string \<times> string)" where
  "templates_halves headers expanded =
     (case templateArrs_halves headers expanded of
        Inl e \<Rightarrow> Inl e
      | Inr (headerArr, valueArr) \<Rightarrow> Inr (join '' '' headerArr, join '' '' valueArr))"

subsection \<open>Reading a template\<close>

text \<open>
  A grid track list made of simple sizes is read as its blank-separated tokens. This is
  the reader's side, used to state that a joined template carries one token per column.
\<close>

fun tokens_from :: "string \<Rightarrow> string \<Rightarrow> string list" where
  "tokens_from cur [] = (if cur = [] then [] else [cur])"
| "tokens_from cur (c # cs) =
     (if c = CHR '' '' then (if cur = [] then tokens_from [] cs else cur # tokens_from [] cs)
      else tokens_from (cur @ [c]) cs)"

definition tokens :: "string \<Rightarrow> string list" where
  "tokens s = tokens_from [] s"

section \<open>Collapsed width\<close>

text \<open>
  C7. For every header title the collapsed width is the larger of the title's length plus
  four and eight; the one-character title gives 8 and the title Status gives 10.
\<close>

theorem getCollapsedWidthCh_formula:
  "getCollapsedWidthCh t = max (length t + 4) 8
   \<and> getCollapsedWidthCh ''S'' = 8
   \<and> getCollapsedWidthCh ''Status'' = 10"
  by (simp add: getCollapsedWidthCh_def)

section \<open>Row resynchronisation\<close>

lemma fold_finsert_ids:
  "fold (\<lambda>row next. finsert (id_row row) next) rows acc = fset_of_list (map id_row rows) |\<union>| acc"
  by (induction rows arbitrary: acc) auto

lemma fold_keep_open:
  "fold (\<lambda>row next. if id_row row |\<in>| prev then finsert (id_row row) next else next) rows acc
     = ffilter (\<lambda>i. i |\<in>| prev) (fset_of_list (map id_row rows)) |\<union>| acc"
  by (induction rows arbitrary: acc) auto

text \<open>
  The second loop adds every row of the new list, so the previous open-row set has no
  influence on the result.
\<close>

lemma resyncRows_all_ids: "resyncRows prev rows = fset_of_list (map id_row rows)"
  by (auto simp: resyncRows_def fold_finsert_ids fold_keep_open)

text \<open>
  C2. The claim is that the result is the open rows that persist together with the rows
  that are new, so that a row kept in the list and closed by the user stays closed. At the
  row list r1, r2 with only r2 open, handed over again unchanged, the effect opens r1; the
  rule as the claim words it keeps r1 closed.
\<close>

theorem resyncRows_reopens_closed_row:
  "resyncRows {|''r2''|}
     [\<lparr>id_row = ''r1'', blocks = (Map.empty :: string \<rightharpoonup> unit)\<rparr>, \<lparr>id_row = ''r2'', blocks = Map.empty\<rparr>]
     = {|''r1'', ''r2''|}
   \<and> resyncRows_spec
       [\<lparr>id_row = ''r1'', blocks = (Map.empty :: string \<rightharpoonup> unit)\<rparr>, \<lparr>id_row = ''r2'', blocks = Map.empty\<rparr>]
       {|''r2''|}
       [\<lparr>id_row = ''r1'', blocks = (Map.empty :: string \<rightharpoonup> unit)\<rparr>, \<lparr>id_row = ''r2'', blocks = Map.empty\<rparr>]
     = {|''r2''|}
   \<and> ''r1'' |\<notin>| {|''r2''|}"
  by (auto simp: resyncRows_def resyncRows_spec_def)

text \<open>
  C6. Resynchronising twice in a row with the same row list gives the same open-row set
  as resynchronising once.
\<close>

theorem resyncRows_idempotent:
  "resyncRows (resyncRows prev rows) rows = resyncRows prev rows"
  by (simp add: resyncRows_all_ids)

section \<open>One toggle\<close>

text \<open>
  C3. In the plain revision, toggling an expanded id while more than two are expanded
  removes exactly that id; toggling an expanded id while exactly two are expanded leaves
  the state as it is; toggling an id that is not expanded adds it.
\<close>

theorem toggle_plain_cases:
  "(i |\<in>| e \<and> 2 < fcard e \<longrightarrow> toggle_plain e i = e |-| {|i|})
   \<and> (i |\<in>| e \<and> fcard e = 2 \<longrightarrow> toggle_plain e i = e)
   \<and> (i |\<notin>| e \<longrightarrow> toggle_plain e i = finsert i e)"
  by (simp add: toggle_plain_def MIN_EXPANDED_def)

theorem toggle_plain_cases_witness:
  "(''A'' |\<in>| {|''A'', ''B'', ''C''|} \<and> 2 < fcard {|''A'', ''B'', ''C''|}
      \<and> toggle_plain {|''A'', ''B'', ''C''|} ''A'' = {|''B'', ''C''|})
   \<and> (''A'' |\<in>| {|''A'', ''B''|} \<and> fcard {|''A'', ''B''|} = 2
      \<and> toggle_plain {|''A'', ''B''|} ''A'' = {|''A'', ''B''|})
   \<and> (''C'' |\<notin>| {|''A'', ''B''|} \<and> toggle_plain {|''A'', ''B''|} ''C'' = {|''A'', ''B'', ''C''|})"
  using toggle_plain_cases [of "''A''" "{|''A'', ''B'', ''C''|}"]
        toggle_plain_cases [of "''A''" "{|''A'', ''B''|}"]
        toggle_plain_cases [of "''C''" "{|''A'', ''B''|}"]
  by (auto simp: fcard_finsert_if)

text \<open>
  C10. In both revisions, toggling an id that is neither expanded nor the id of a header
  inserts it: the state changes, and the new state is not a subset of the header ids.
\<close>

theorem toggle_unknown_id_inserted:
  assumes "i |\<notin>| e" and "i |\<notin>| header_ids headers"
  shows "toggle_plain e i = finsert i e \<and> toggle_swap headers e i = finsert i e
         \<and> toggle_plain e i \<noteq> e \<and> toggle_swap headers e i \<noteq> e
         \<and> \<not> toggle_plain e i |\<subseteq>| header_ids headers
         \<and> \<not> toggle_swap headers e i |\<subseteq>| header_ids headers"
  using assms by (auto simp: toggle_plain_def toggle_swap_def)

theorem toggle_unknown_id_inserted_witness:
  "''X'' |\<notin>| {|''A'', ''B''|}
   \<and> ''X'' |\<notin>| header_ids [\<lparr>id_cell = ''A'', title = ''A''\<rparr>, \<lparr>id_cell = ''B'', title = ''B''\<rparr>, \<lparr>id_cell = ''C'', title = ''C''\<rparr>]
   \<and> {|''A'', ''B''|} |\<subseteq>| header_ids [\<lparr>id_cell = ''A'', title = ''A''\<rparr>, \<lparr>id_cell = ''B'', title = ''B''\<rparr>, \<lparr>id_cell = ''C'', title = ''C''\<rparr>]
   \<and> toggle_plain {|''A'', ''B''|} ''X'' = {|''A'', ''B'', ''X''|}
   \<and> toggle_swap [\<lparr>id_cell = ''A'', title = ''A''\<rparr>, \<lparr>id_cell = ''B'', title = ''B''\<rparr>, \<lparr>id_cell = ''C'', title = ''C''\<rparr>] {|''A'', ''B''|} ''X'' = {|''A'', ''B'', ''X''|}
   \<and> \<not> toggle_plain {|''A'', ''B''|} ''X'' |\<subseteq>| header_ids [\<lparr>id_cell = ''A'', title = ''A''\<rparr>, \<lparr>id_cell = ''B'', title = ''B''\<rparr>, \<lparr>id_cell = ''C'', title = ''C''\<rparr>]
   \<and> \<not> toggle_swap [\<lparr>id_cell = ''A'', title = ''A''\<rparr>, \<lparr>id_cell = ''B'', title = ''B''\<rparr>, \<lparr>id_cell = ''C'', title = ''C''\<rparr>] {|''A'', ''B''|} ''X'' |\<subseteq>| header_ids [\<lparr>id_cell = ''A'', title = ''A''\<rparr>, \<lparr>id_cell = ''B'', title = ''B''\<rparr>, \<lparr>id_cell = ''C'', title = ''C''\<rparr>]"
  using toggle_unknown_id_inserted [of "''X''" "{|''A'', ''B''|}" "[\<lparr>id_cell = ''A'', title = ''A''\<rparr>, \<lparr>id_cell = ''B'', title = ''B''\<rparr>, \<lparr>id_cell = ''C'', title = ''C''\<rparr>]"]
  by (auto simp: header_ids_def)

section \<open>Sequences of toggles\<close>

lemma fcard_fset_of_list_distinct: "distinct xs \<Longrightarrow> fcard (fset_of_list xs) = length xs"
  by (simp add: fcard.rep_eq fset_of_list.rep_eq distinct_card)

lemma header_ids_elem: "i |\<in>| header_ids headers \<longleftrightarrow> i \<in> set (map id_cell headers)"
  unfolding header_ids_def by (rule fset_of_list_elem)

lemma expanded_init_card:
  assumes "distinct (map id_cell headers)" and "2 \<le> length headers"
  shows "2 \<le> fcard (expanded_init headers)"
proof (cases "length headers \<le> 2")
  case True
  with assms show ?thesis
    by (simp add: expanded_init_def initialExpanded_def MIN_EXPANDED_def fcard_fset_of_list_distinct
          del: fset_of_list_map)
next
  case False
  have "distinct (map id_cell (butlast headers))"
    using assms(1) by (metis map_butlast distinct_butlast)
  with False show ?thesis
    by (simp add: expanded_init_def initialExpanded_def MIN_EXPANDED_def fcard_fset_of_list_distinct
          del: fset_of_list_map)
qed

lemma expanded_init_subset: "expanded_init headers |\<subseteq>| header_ids headers"
  by (auto simp: expanded_init_def initialExpanded_def header_ids_elem fset_of_list_elem
        simp del: fset_of_list_map dest!: in_set_butlastD)

lemma toggle_plain_card: "2 \<le> fcard e \<Longrightarrow> 2 \<le> fcard (toggle_plain e i)"
  by (auto simp: toggle_plain_def Let_def MIN_EXPANDED_def fcard_finsert_if fcard_fminus_fsingleton_if)

lemma collapsedIds_singleton:
  assumes "map id_cell (filter (\<lambda>h. id_cell h |\<notin>| e) headers) = [c]"
  shows "c |\<notin>| e \<and> c |\<in>| header_ids headers"
proof -
  have "c \<in> set (map id_cell (filter (\<lambda>h. id_cell h |\<notin>| e) headers))"
    using assms by simp
  then show ?thesis by (auto simp: header_ids_elem)
qed

lemma toggle_swap_card:
  assumes "2 \<le> fcard e"
  shows "2 \<le> fcard (toggle_swap headers e i)"
proof (cases "i |\<in>| e \<and> fcard e = 2")
  case False
  with assms show ?thesis
    by (auto simp: toggle_swap_def Let_def MIN_EXPANDED_def fcard_finsert_if fcard_fminus_fsingleton_if)
next
  case True
  show ?thesis
  proof (cases "\<exists>c. map id_cell (filter (\<lambda>h. id_cell h |\<notin>| e) headers) = [c]")
    case False
    with True assms show ?thesis
      by (auto simp: toggle_swap_def Let_def MIN_EXPANDED_def split: list.splits)
  next
    case yes: True
    then obtain c where c: "map id_cell (filter (\<lambda>h. id_cell h |\<notin>| e) headers) = [c]" ..
    then have "c |\<notin>| e" by (rule collapsedIds_singleton [THEN conjunct1])
    with True c show ?thesis
      by (auto simp: toggle_swap_def Let_def MIN_EXPANDED_def fcard_finsert_if fcard_fminus_fsingleton_if)
  qed
qed

lemma toggle_plain_subset:
  "e |\<subseteq>| H \<Longrightarrow> i |\<in>| H \<Longrightarrow> toggle_plain e i |\<subseteq>| H"
  by (auto simp: toggle_plain_def Let_def)

lemma toggle_swap_subset:
  assumes "e |\<subseteq>| header_ids headers" and "i |\<in>| header_ids headers"
  shows "toggle_swap headers e i |\<subseteq>| header_ids headers"
proof (cases "\<exists>c. map id_cell (filter (\<lambda>h. id_cell h |\<notin>| e) headers) = [c]")
  case False
  with assms show ?thesis
    by (auto simp: toggle_swap_def Let_def split: list.splits)
next
  case True
  then obtain c where c: "map id_cell (filter (\<lambda>h. id_cell h |\<notin>| e) headers) = [c]" ..
  then have "c |\<in>| header_ids headers" by (rule collapsedIds_singleton [THEN conjunct2])
  with assms c show ?thesis
    by (auto simp: toggle_swap_def Let_def)
qed

lemma foldl_invariant:
  assumes "P s" and "\<And>s i. P s \<Longrightarrow> i \<in> set ids \<Longrightarrow> P (f s i)"
  shows "P (foldl f s ids)"
  using assms by (induction ids arbitrary: s) auto

lemma run_plain_card:
  assumes "distinct (map id_cell headers)" and "2 \<le> length headers"
  shows "2 \<le> fcard (run_plain headers ids)"
  unfolding run_plain_def
  by (rule foldl_invariant [where P = "\<lambda>s. 2 \<le> fcard s"])
     (simp_all add: expanded_init_card assms toggle_plain_card)

lemma run_swap_card:
  assumes "distinct (map id_cell headers)" and "2 \<le> length headers"
  shows "2 \<le> fcard (run_swap headers ids)"
  unfolding run_swap_def
  by (rule foldl_invariant [where P = "\<lambda>s. 2 \<le> fcard s"])
     (simp_all add: expanded_init_card assms toggle_swap_card)

lemma run_plain_subset:
  assumes "set ids \<subseteq> set (map id_cell headers)"
  shows "run_plain headers ids |\<subseteq>| header_ids headers"
  unfolding run_plain_def
proof (rule foldl_invariant [where P = "\<lambda>s. s |\<subseteq>| header_ids headers"])
  show "expanded_init headers |\<subseteq>| header_ids headers" by (rule expanded_init_subset)
next
  fix s i assume "s |\<subseteq>| header_ids headers" and "i \<in> set ids"
  moreover from \<open>i \<in> set ids\<close> assms have "i |\<in>| header_ids headers"
    by (auto simp: header_ids_elem)
  ultimately show "toggle_plain s i |\<subseteq>| header_ids headers"
    by (simp add: toggle_plain_subset)
qed

lemma run_swap_subset:
  assumes "set ids \<subseteq> set (map id_cell headers)"
  shows "run_swap headers ids |\<subseteq>| header_ids headers"
  unfolding run_swap_def
proof (rule foldl_invariant [where P = "\<lambda>s. s |\<subseteq>| header_ids headers"])
  show "expanded_init headers |\<subseteq>| header_ids headers" by (rule expanded_init_subset)
next
  fix s i assume "s |\<subseteq>| header_ids headers" and "i \<in> set ids"
  moreover from \<open>i \<in> set ids\<close> assms have "i |\<in>| header_ids headers"
    by (auto simp: header_ids_elem)
  ultimately show "toggle_swap headers s i |\<subseteq>| header_ids headers"
    by (simp add: toggle_swap_subset)
qed


lemma collapsed_length:
  assumes "distinct (map id_cell headers)" and "e |\<subseteq>| header_ids headers"
  shows "length (collapsed headers e) + fcard e = length headers"
proof -
  let ?shown = "filter (\<lambda>x. x |\<in>| e) (map id_cell headers)"
  have "distinct ?shown" using assms(1) by simp
  then have "length ?shown = card (set ?shown)" by (rule distinct_card [symmetric])
  also have "set ?shown = fset e"
    using assms(2) by (auto simp: header_ids_elem)
  finally have "length ?shown = fcard e" by (simp add: fcard.rep_eq)
  moreover have "length ?shown = length (filter (\<lambda>h. id_cell h |\<in>| e) headers)"
    by (simp add: filter_map o_def)
  moreover have "length (filter (\<lambda>h. id_cell h |\<in>| e) headers)
                 + length (filter (\<lambda>h. \<not> id_cell h |\<in>| e) headers) = length headers"
    by (rule sum_length_filter_compl)
  ultimately show ?thesis by (simp add: collapsed_def)
qed


text \<open>
  C1. For a header list of at least two headers (with pairwise distinct ids, as the data
  model has them) and any sequence of toggles from the initial state, the expanded set has
  at least two elements after every operation, in both revisions, whatever ids are
  toggled; when the toggled ids are header ids, as the toggle's contract asks, every
  element is a header id.
\<close>

theorem expanded_at_least_two:
  assumes "distinct (map id_cell headers)" and "2 \<le> length headers"
  shows "2 \<le> fcard (run_plain headers (take k ids))
         \<and> 2 \<le> fcard (run_swap headers (take k ids))
         \<and> (set ids \<subseteq> set (map id_cell headers) \<longrightarrow>
              run_plain headers (take k ids) |\<subseteq>| header_ids headers
              \<and> run_swap headers (take k ids) |\<subseteq>| header_ids headers)"
proof -
  have "set ids \<subseteq> set (map id_cell headers) \<Longrightarrow> set (take k ids) \<subseteq> set (map id_cell headers)"
    using set_take_subset [of k ids] by blast
  then show ?thesis
    using assms by (simp add: run_plain_card run_swap_card run_plain_subset run_swap_subset)
qed

theorem expanded_at_least_two_witness:
  "distinct (map id_cell [\<lparr>id_cell = ''A'', title = ''A''\<rparr>, \<lparr>id_cell = ''B'', title = ''B''\<rparr>, \<lparr>id_cell = ''C'', title = ''C''\<rparr>])
   \<and> 2 \<le> length [\<lparr>id_cell = ''A'', title = ''A''\<rparr>, \<lparr>id_cell = ''B'', title = ''B''\<rparr>, \<lparr>id_cell = ''C'', title = ''C''\<rparr>]
   \<and> set [''C'', ''A'', ''B''] \<subseteq> set (map id_cell [\<lparr>id_cell = ''A'', title = ''A''\<rparr>, \<lparr>id_cell = ''B'', title = ''B''\<rparr>, \<lparr>id_cell = ''C'', title = ''C''\<rparr>])
   \<and> run_plain [\<lparr>id_cell = ''A'', title = ''A''\<rparr>, \<lparr>id_cell = ''B'', title = ''B''\<rparr>, \<lparr>id_cell = ''C'', title = ''C''\<rparr>] (take 2 [''C'', ''A'', ''B'']) = {|''B'', ''C''|}
   \<and> run_swap [\<lparr>id_cell = ''A'', title = ''A''\<rparr>, \<lparr>id_cell = ''B'', title = ''B''\<rparr>, \<lparr>id_cell = ''C'', title = ''C''\<rparr>] (take 2 [''C'', ''A'', ''B'']) = {|''B'', ''C''|}
   \<and> 2 \<le> fcard (run_plain [\<lparr>id_cell = ''A'', title = ''A''\<rparr>, \<lparr>id_cell = ''B'', title = ''B''\<rparr>, \<lparr>id_cell = ''C'', title = ''C''\<rparr>] (take 2 [''C'', ''A'', ''B'']))
   \<and> 2 \<le> fcard (run_swap [\<lparr>id_cell = ''A'', title = ''A''\<rparr>, \<lparr>id_cell = ''B'', title = ''B''\<rparr>, \<lparr>id_cell = ''C'', title = ''C''\<rparr>] (take 2 [''C'', ''A'', ''B'']))
   \<and> run_plain [\<lparr>id_cell = ''A'', title = ''A''\<rparr>, \<lparr>id_cell = ''B'', title = ''B''\<rparr>, \<lparr>id_cell = ''C'', title = ''C''\<rparr>] (take 2 [''C'', ''A'', ''B'']) |\<subseteq>| header_ids [\<lparr>id_cell = ''A'', title = ''A''\<rparr>, \<lparr>id_cell = ''B'', title = ''B''\<rparr>, \<lparr>id_cell = ''C'', title = ''C''\<rparr>]
   \<and> run_swap [\<lparr>id_cell = ''A'', title = ''A''\<rparr>, \<lparr>id_cell = ''B'', title = ''B''\<rparr>, \<lparr>id_cell = ''C'', title = ''C''\<rparr>] (take 2 [''C'', ''A'', ''B'']) |\<subseteq>| header_ids [\<lparr>id_cell = ''A'', title = ''A''\<rparr>, \<lparr>id_cell = ''B'', title = ''B''\<rparr>, \<lparr>id_cell = ''C'', title = ''C''\<rparr>]"
proof -
  let ?hs = "[\<lparr>id_cell = ''A'', title = ''A''\<rparr>, \<lparr>id_cell = ''B'', title = ''B''\<rparr>, \<lparr>id_cell = ''C'', title = ''C''\<rparr>]"
  have d: "distinct (map id_cell ?hs)" by simp
  have l: "2 \<le> length ?hs" by simp
  have s: "set [''C'', ''A'', ''B''] \<subseteq> set (map id_cell ?hs)" by simp
  have p: "run_plain ?hs (take 2 [''C'', ''A'', ''B'']) = {|''B'', ''C''|}" by code_simp
  have q: "run_swap ?hs (take 2 [''C'', ''A'', ''B'']) = {|''B'', ''C''|}" by code_simp
  from expanded_at_least_two [OF d l, of 2 "[''C'', ''A'', ''B'']"] s
  have "2 \<le> fcard (run_plain ?hs (take 2 [''C'', ''A'', ''B'']))
         \<and> 2 \<le> fcard (run_swap ?hs (take 2 [''C'', ''A'', ''B'']))
         \<and> run_plain ?hs (take 2 [''C'', ''A'', ''B'']) |\<subseteq>| header_ids ?hs
         \<and> run_swap ?hs (take 2 [''C'', ''A'', ''B'']) |\<subseteq>| header_ids ?hs"
    by blast
  with d l s p q show ?thesis by blast
qed

text \<open>
  C4, as stated, for every header list of at least three headers: with four headers the
  swap revision collapses a second column on the first click of an expanded one, since
  three are expanded then and the floor of two is not reached.
\<close>

theorem single_collapse_four_headers_counterexample:
  "distinct (map id_cell [\<lparr>id_cell = ''A'', title = ''A''\<rparr>, \<lparr>id_cell = ''B'', title = ''B''\<rparr>, \<lparr>id_cell = ''C'', title = ''C''\<rparr>, \<lparr>id_cell = ''D'', title = ''D''\<rparr>])
   \<and> 3 \<le> length [\<lparr>id_cell = ''A'', title = ''A''\<rparr>, \<lparr>id_cell = ''B'', title = ''B''\<rparr>, \<lparr>id_cell = ''C'', title = ''C''\<rparr>, \<lparr>id_cell = ''D'', title = ''D''\<rparr>]
   \<and> run_swap [\<lparr>id_cell = ''A'', title = ''A''\<rparr>, \<lparr>id_cell = ''B'', title = ''B''\<rparr>, \<lparr>id_cell = ''C'', title = ''C''\<rparr>, \<lparr>id_cell = ''D'', title = ''D''\<rparr>] [''A''] = {|''B'', ''C''|}
   \<and> \<not> int (length [\<lparr>id_cell = ''A'', title = ''A''\<rparr>, \<lparr>id_cell = ''B'', title = ''B''\<rparr>, \<lparr>id_cell = ''C'', title = ''C''\<rparr>, \<lparr>id_cell = ''D'', title = ''D''\<rparr>])
         - int (fcard (run_swap [\<lparr>id_cell = ''A'', title = ''A''\<rparr>, \<lparr>id_cell = ''B'', title = ''B''\<rparr>, \<lparr>id_cell = ''C'', title = ''C''\<rparr>, \<lparr>id_cell = ''D'', title = ''D''\<rparr>] [''A''])) \<le> 1
   \<and> map id_cell (collapsed [\<lparr>id_cell = ''A'', title = ''A''\<rparr>, \<lparr>id_cell = ''B'', title = ''B''\<rparr>, \<lparr>id_cell = ''C'', title = ''C''\<rparr>, \<lparr>id_cell = ''D'', title = ''D''\<rparr>]
        (run_swap [\<lparr>id_cell = ''A'', title = ''A''\<rparr>, \<lparr>id_cell = ''B'', title = ''B''\<rparr>, \<lparr>id_cell = ''C'', title = ''C''\<rparr>, \<lparr>id_cell = ''D'', title = ''D''\<rparr>] [''A''])) = [''A'', ''D'']"
proof -
  let ?hs = "[\<lparr>id_cell = ''A'', title = ''A''\<rparr>, \<lparr>id_cell = ''B'', title = ''B''\<rparr>, \<lparr>id_cell = ''C'', title = ''C''\<rparr>, \<lparr>id_cell = ''D'', title = ''D''\<rparr>]"
  have r: "run_swap ?hs [''A''] = {|''B'', ''C''|}" by code_simp
  have c: "collapsed ?hs {|''B'', ''C''|} = [\<lparr>id_cell = ''A'', title = ''A''\<rparr>, \<lparr>id_cell = ''D'', title = ''D''\<rparr>]"
    by (simp add: collapsed_def)
  have n: "fcard {|''B'', ''C''|} = 2" by (simp add: fcard_finsert_if)
  show ?thesis by (simp add: r c n)
qed


text \<open>
  C4, amended. In the swap revision, for a list of exactly three headers with distinct
  ids and any sequence of toggles of header ids from the initial state, at most one
  column is collapsed.
\<close>

theorem single_collapse_three_headers:
  assumes "distinct (map id_cell headers)" and "length headers = 3"
    and "set ids \<subseteq> set (map id_cell headers)"
  shows "int (length headers) - int (fcard (run_swap headers ids)) \<le> 1
         \<and> length (collapsed headers (run_swap headers ids)) \<le> 1"
proof -
  have two: "2 \<le> fcard (run_swap headers ids)"
    using assms(1,2) by (simp add: run_swap_card)
  have "length (collapsed headers (run_swap headers ids)) + fcard (run_swap headers ids) = 3"
    using collapsed_length [OF assms(1) run_swap_subset [OF assms(3)]] assms(2) by simp
  with two assms(2) show ?thesis by simp
qed

theorem single_collapse_three_headers_witness:
  "distinct (map id_cell [\<lparr>id_cell = ''A'', title = ''A''\<rparr>, \<lparr>id_cell = ''B'', title = ''B''\<rparr>, \<lparr>id_cell = ''C'', title = ''C''\<rparr>])
   \<and> length [\<lparr>id_cell = ''A'', title = ''A''\<rparr>, \<lparr>id_cell = ''B'', title = ''B''\<rparr>, \<lparr>id_cell = ''C'', title = ''C''\<rparr>] = 3
   \<and> set [''A'', ''C'', ''B''] \<subseteq> set (map id_cell [\<lparr>id_cell = ''A'', title = ''A''\<rparr>, \<lparr>id_cell = ''B'', title = ''B''\<rparr>, \<lparr>id_cell = ''C'', title = ''C''\<rparr>])
   \<and> run_swap [\<lparr>id_cell = ''A'', title = ''A''\<rparr>, \<lparr>id_cell = ''B'', title = ''B''\<rparr>, \<lparr>id_cell = ''C'', title = ''C''\<rparr>] [''A'', ''C'', ''B''] = {|''A'', ''C''|}
   \<and> int (length [\<lparr>id_cell = ''A'', title = ''A''\<rparr>, \<lparr>id_cell = ''B'', title = ''B''\<rparr>, \<lparr>id_cell = ''C'', title = ''C''\<rparr>])
       - int (fcard (run_swap [\<lparr>id_cell = ''A'', title = ''A''\<rparr>, \<lparr>id_cell = ''B'', title = ''B''\<rparr>, \<lparr>id_cell = ''C'', title = ''C''\<rparr>] [''A'', ''C'', ''B''])) \<le> 1
   \<and> length (collapsed [\<lparr>id_cell = ''A'', title = ''A''\<rparr>, \<lparr>id_cell = ''B'', title = ''B''\<rparr>, \<lparr>id_cell = ''C'', title = ''C''\<rparr>]
        (run_swap [\<lparr>id_cell = ''A'', title = ''A''\<rparr>, \<lparr>id_cell = ''B'', title = ''B''\<rparr>, \<lparr>id_cell = ''C'', title = ''C''\<rparr>] [''A'', ''C'', ''B''])) \<le> 1"
proof -
  let ?hs = "[\<lparr>id_cell = ''A'', title = ''A''\<rparr>, \<lparr>id_cell = ''B'', title = ''B''\<rparr>, \<lparr>id_cell = ''C'', title = ''C''\<rparr>]"
  have d: "distinct (map id_cell ?hs)" by simp
  have l: "length ?hs = 3" by simp
  have s: "set [''A'', ''C'', ''B''] \<subseteq> set (map id_cell ?hs)" by simp
  have r: "run_swap ?hs [''A'', ''C'', ''B''] = {|''A'', ''C''|}" by code_simp
  from d l s r single_collapse_three_headers [OF d l s] show ?thesis by blast
qed


text \<open>
  C5, as stated: in the swap revision, with headers A, B, C and A, B expanded, a click on
  the collapsed C is said to give A, C expanded. It gives all three expanded.
\<close>

theorem toggle_swap_collapsed_click_counterexample:
  "toggle_swap [\<lparr>id_cell = ''A'', title = ''A''\<rparr>, \<lparr>id_cell = ''B'', title = ''B''\<rparr>, \<lparr>id_cell = ''C'', title = ''C''\<rparr>] {|''A'', ''B''|} ''C''
     = {|''A'', ''B'', ''C''|}
   \<and> toggle_swap [\<lparr>id_cell = ''A'', title = ''A''\<rparr>, \<lparr>id_cell = ''B'', title = ''B''\<rparr>, \<lparr>id_cell = ''C'', title = ''C''\<rparr>] {|''A'', ''B''|} ''C''
     \<noteq> {|''A'', ''C''|}
   \<and> ''B'' |\<in>| toggle_swap [\<lparr>id_cell = ''A'', title = ''A''\<rparr>, \<lparr>id_cell = ''B'', title = ''B''\<rparr>, \<lparr>id_cell = ''C'', title = ''C''\<rparr>] {|''A'', ''B''|} ''C''"
proof -
  have r: "toggle_swap [\<lparr>id_cell = ''A'', title = ''A''\<rparr>, \<lparr>id_cell = ''B'', title = ''B''\<rparr>, \<lparr>id_cell = ''C'', title = ''C''\<rparr>] {|''A'', ''B''|} ''C''
     = {|''A'', ''B'', ''C''|}" by (auto simp: toggle_swap_def Let_def)
  have "''B'' |\<notin>| {|''A'', ''C''|}" by simp
  moreover have "''B'' |\<in>| {|''A'', ''B'', ''C''|}" by simp
  ultimately have "{|''A'', ''B'', ''C''|} \<noteq> {|''A'', ''C''|}" by metis
  then show ?thesis by (simp add: r)
qed


text \<open>
  C5, amended. In the swap revision the swap happens on a click on an expanded column
  while exactly two are expanded and exactly one header is collapsed: the collapsed one
  becomes expanded and the clicked one collapsed, two staying expanded. A click on a
  column that is not expanded always expands it.
\<close>

theorem toggle_swap_cases:
  "(i |\<in>| e \<and> fcard e = 2 \<and> collapsed headers e = [y] \<longrightarrow>
      toggle_swap headers e i = finsert (id_cell y) e |-| {|i|}
      \<and> id_cell y |\<in>| toggle_swap headers e i
      \<and> i |\<notin>| toggle_swap headers e i
      \<and> fcard (toggle_swap headers e i) = 2)
   \<and> (i |\<notin>| e \<longrightarrow> toggle_swap headers e i = finsert i e)"
proof -
  have "id_cell y |\<notin>| e" if "collapsed headers e = [y]"
  proof -
    have "y \<in> set (collapsed headers e)" using that by simp
    then show ?thesis by (simp add: collapsed_def)
  qed
  then show ?thesis
    by (auto simp: toggle_swap_def Let_def collapsed_def MIN_EXPANDED_def
          fcard_finsert_if fcard_fminus_fsingleton_if)
qed

theorem toggle_swap_cases_witness:
  "(''A'' |\<in>| {|''A'', ''B''|} \<and> fcard {|''A'', ''B''|} = 2
    \<and> collapsed [\<lparr>id_cell = ''A'', title = ''A''\<rparr>, \<lparr>id_cell = ''B'', title = ''B''\<rparr>, \<lparr>id_cell = ''C'', title = ''C''\<rparr>] {|''A'', ''B''|}
        = [\<lparr>id_cell = ''C'', title = ''C''\<rparr>]
    \<and> toggle_swap [\<lparr>id_cell = ''A'', title = ''A''\<rparr>, \<lparr>id_cell = ''B'', title = ''B''\<rparr>, \<lparr>id_cell = ''C'', title = ''C''\<rparr>] {|''A'', ''B''|} ''A''
        = {|''B'', ''C''|})
   \<and> (''C'' |\<notin>| {|''A'', ''B''|}
    \<and> toggle_swap [\<lparr>id_cell = ''A'', title = ''A''\<rparr>, \<lparr>id_cell = ''B'', title = ''B''\<rparr>, \<lparr>id_cell = ''C'', title = ''C''\<rparr>] {|''A'', ''B''|} ''C''
        = {|''A'', ''B'', ''C''|})"
proof -
  let ?hs = "[\<lparr>id_cell = ''A'', title = ''A''\<rparr>, \<lparr>id_cell = ''B'', title = ''B''\<rparr>, \<lparr>id_cell = ''C'', title = ''C''\<rparr>]"
  have a: "''A'' |\<in>| {|''A'', ''B''|}" by simp
  have n: "fcard {|''A'', ''B''|} = 2" by (simp add: fcard_finsert_if)
  have c: "collapsed ?hs {|''A'', ''B''|} = [\<lparr>id_cell = ''C'', title = ''C''\<rparr>]"
    by (simp add: collapsed_def)
  have x: "''C'' |\<notin>| {|''A'', ''B''|}" by simp
  have "toggle_swap ?hs {|''A'', ''B''|} ''A'' = finsert ''C'' {|''A'', ''B''|} |-| {|''A''|}"
    using toggle_swap_cases [of "''A''" "{|''A'', ''B''|}" ?hs "\<lparr>id_cell = ''C'', title = ''C''\<rparr>"] a n c
    by simp
  moreover have "finsert ''C'' {|''A'', ''B''|} |-| {|''A''|} = {|''B'', ''C''|}" by auto
  moreover have "toggle_swap ?hs {|''A'', ''B''|} ''C'' = finsert ''C'' {|''A'', ''B''|}"
    using toggle_swap_cases [of "''C''" "{|''A'', ''B''|}" ?hs] x by blast
  moreover have "finsert ''C'' {|''A'', ''B''|} = {|''A'', ''B'', ''C''|}" by auto
  ultimately show ?thesis using a n c x by simp
qed

section \<open>Templates\<close>

lemma tokens_from_append:
  "CHR '' '' \<notin> set t \<Longrightarrow> tokens_from cur (t @ rest) = tokens_from (cur @ t) rest"
  by (induction t arbitrary: cur) auto

lemma tokens_join:
  "(\<And>t. t \<in> set ts \<Longrightarrow> t \<noteq> [] \<and> CHR '' '' \<notin> set t) \<Longrightarrow> tokens (join '' '' ts) = ts"
proof (induction "'' ''" ts rule: join.induct)
  case 1
  show ?case by (simp add: tokens_def)
next
  case (2 x)
  then have "x \<noteq> []" and "CHR '' '' \<notin> set x" by simp_all
  then show ?case
    using tokens_from_append [of x "[]" "[]"] by (simp add: tokens_def)
next
  case (3 x y ys)
  then have x: "x \<noteq> []" "CHR '' '' \<notin> set x" by simp_all
  have rest: "tokens (join '' '' (y # ys)) = y # ys"
    using 3 by simp
  have "tokens (join '' '' (x # y # ys)) = tokens_from x (CHR '' '' # join '' '' (y # ys))"
    using tokens_from_append [OF x(2), of "[]"] by (simp add: tokens_def)
  also have "\<dots> = x # tokens (join '' '' (y # ys))"
    using x(1) by (simp add: tokens_def)
  finally show ?case by (simp add: rest)
qed

lemma digit_char_no_blank: "d < 10 \<Longrightarrow> digit_char d \<noteq> CHR '' ''"
proof -
  assume "d < 10"
  then have "digit_char d \<in> set ''0123456789''"
    unfolding digit_char_def by (intro nth_mem) simp
  then show ?thesis by auto
qed

lemma string_of_nat_no_blank: "CHR '' '' \<notin> set (string_of_nat n)"
proof (induction n rule: string_of_nat.induct)
  case (1 n)
  show ?case
  proof (cases "n < 10")
    case True
    then show ?thesis
      using digit_char_no_blank [of n] by (subst string_of_nat.simps) auto
  next
    case False
    then show ?thesis
      using 1 digit_char_no_blank [of "n mod 10"] by (subst string_of_nat.simps) auto
  qed
qed

lemma headerTemplateArr_tokens:
  "t \<in> set (headerTemplateArr headers expanded) \<Longrightarrow> t \<noteq> [] \<and> CHR '' '' \<notin> set t"
  by (auto simp: headerTemplateArr_def string_of_nat_no_blank)

lemma valueTemplateArr_tokens:
  "t \<in> set (valueTemplateArr headers expanded) \<Longrightarrow> t \<noteq> [] \<and> CHR '' '' \<notin> set t"
  by (auto simp: valueTemplateArr_def)


lemma valueTemplateArr_halves_map:
  "valueTemplateArr_halves cid flag hs = map (\<lambda>h. if id_cell h = cid then ''0px'' else ''50%'') hs"
  by (induction hs arbitrary: flag) auto

lemma length_headerTemplateArr_halves:
  "length (headerTemplateArr_halves cid w flag hs) = length hs"
  by (induction hs arbitrary: flag) auto

lemma find_collapsed_head:
  assumes "filter (\<lambda>h. id_cell h |\<notin>| e) headers = c # cs"
  shows "find (\<lambda>h. id_cell h = id_cell c) headers \<noteq> None"
proof -
  have "c \<in> set (filter (\<lambda>h. id_cell h |\<notin>| e) headers)" using assms by simp
  then have "c \<in> set headers" by simp
  then show ?thesis by (auto simp: find_None_iff)
qed

lemma templateArrs_halves_lengths:
  "\<exists>ha va. templateArrs_halves headers expanded = Inr (ha, va)
     \<and> length ha = length headers \<and> length va = length headers
     \<and> (\<forall>t \<in> set va. t = ''1fr'' \<or> t = ''0px'' \<or> t = ''50%'')"
proof (cases "filter (\<lambda>h. id_cell h |\<notin>| expanded) headers")
  case Nil
  then show ?thesis by (auto simp: templateArrs_halves_def)
next
  case (Cons c cs)
  from find_collapsed_head [OF Cons]
  obtain h where "find (\<lambda>h. id_cell h = id_cell c) headers = Some h" by auto
  with Cons show ?thesis
    by (auto simp: templateArrs_halves_def length_headerTemplateArr_halves
          valueTemplateArr_halves_map)
qed

lemma templateArrs_halves_none_collapsed:
  assumes "collapsed headers expanded = []"
  shows "templateArrs_halves headers expanded
           = Inr (map (\<lambda>_. ''1fr'') headers, map (\<lambda>_. ''1fr'') headers)"
  using assms by (simp add: templateArrs_halves_def collapsed_def)

lemma templateArrs_halves_one_collapsed:
  assumes "collapsed headers expanded = [c]" and "id_cell c \<noteq> []"
  shows "\<exists>ha. templateArrs_halves headers expanded
           = Inr (ha, map (\<lambda>h. if id_cell h |\<in>| expanded then ''50%'' else ''0px'') headers)"
proof -
  have f: "filter (\<lambda>h. id_cell h |\<notin>| expanded) headers = [c]"
    using assms(1) by (simp add: collapsed_def)
  from find_collapsed_head [OF f]
  obtain h where h: "find (\<lambda>h. id_cell h = id_cell c) headers = Some h" by auto
  have "(id_cell x = id_cell c) = (id_cell x |\<notin>| expanded)" if "x \<in> set headers" for x
  proof
    assume "id_cell x = id_cell c"
    moreover have "c \<in> set (filter (\<lambda>h. id_cell h |\<notin>| expanded) headers)" using f by simp
    ultimately show "id_cell x |\<notin>| expanded" by simp
  next
    assume "id_cell x |\<notin>| expanded"
    with that have "x \<in> set (filter (\<lambda>h. id_cell h |\<notin>| expanded) headers)" by simp
    then show "id_cell x = id_cell c" using f by simp
  qed
  then have "map (\<lambda>h. if id_cell h = id_cell c then ''0px'' else ''50%'') headers
        = map (\<lambda>h. if id_cell h |\<in>| expanded then ''50%'' else ''0px'') headers"
    by (intro map_cong) auto
  with f h assms(2) show ?thesis
    by (simp add: templateArrs_halves_def valueTemplateArr_halves_map)
qed


lemma halves_value_tokens:
  assumes "\<forall>t \<in> set va. t = ''1fr'' \<or> t = ''0px'' \<or> t = ''50%''"
  shows "tokens (join '' '' va) = va"
proof (rule tokens_join)
  fix t assume "t \<in> set va"
  with assms have "t = ''1fr'' \<or> t = ''0px'' \<or> t = ''50%''" by blast
  then show "t \<noteq> [] \<and> CHR '' '' \<notin> set t" by auto
qed


text \<open>
  C8. In the plain revision (equal split) the header template has one token per header,
  in header order: every expanded column gets the token 1fr and every collapsed column
  its collapsed width, the larger of title length plus four and eight, in ch. The joined
  string read back at its blanks gives exactly these tokens.
\<close>

theorem headerTemplate_equal_split:
  "length (headerTemplateArr headers expanded) = length headers
   \<and> (\<forall>k<length headers.
        headerTemplateArr headers expanded ! k =
          (if id_cell (headers ! k) |\<in>| expanded then ''1fr''
           else string_of_nat (max (length (title (headers ! k)) + 4) 8) @ ''ch''))
   \<and> tokens (headerTemplateStr headers expanded) = headerTemplateArr headers expanded"
  using tokens_join [of "headerTemplateArr headers expanded"] headerTemplateArr_tokens
  by (auto simp: headerTemplateStr_def) (simp_all add: headerTemplateArr_def getCollapsedWidthCh_def)

theorem headerTemplate_equal_split_witness:
  "2 < length [\<lparr>id_cell = ''status'', title = ''Status''\<rparr>, \<lparr>id_cell = ''owner'', title = ''Owner''\<rparr>, \<lparr>id_cell = ''progress'', title = ''Progress''\<rparr>, \<lparr>id_cell = ''notes'', title = ''Notes''\<rparr>]
   \<and> headerTemplateArr [\<lparr>id_cell = ''status'', title = ''Status''\<rparr>, \<lparr>id_cell = ''owner'', title = ''Owner''\<rparr>, \<lparr>id_cell = ''progress'', title = ''Progress''\<rparr>, \<lparr>id_cell = ''notes'', title = ''Notes''\<rparr>]
        {|''status'', ''owner''|} ! 0 = ''1fr''
   \<and> headerTemplateArr [\<lparr>id_cell = ''status'', title = ''Status''\<rparr>, \<lparr>id_cell = ''owner'', title = ''Owner''\<rparr>, \<lparr>id_cell = ''progress'', title = ''Progress''\<rparr>, \<lparr>id_cell = ''notes'', title = ''Notes''\<rparr>]
        {|''status'', ''owner''|} ! 2 = ''12ch''
   \<and> tokens (headerTemplateStr [\<lparr>id_cell = ''status'', title = ''Status''\<rparr>, \<lparr>id_cell = ''owner'', title = ''Owner''\<rparr>, \<lparr>id_cell = ''progress'', title = ''Progress''\<rparr>, \<lparr>id_cell = ''notes'', title = ''Notes''\<rparr>]
        {|''status'', ''owner''|}) = [''1fr'', ''1fr'', ''12ch'', ''9ch'']
   \<and> headerTemplateStr [\<lparr>id_cell = ''status'', title = ''Status''\<rparr>, \<lparr>id_cell = ''owner'', title = ''Owner''\<rparr>, \<lparr>id_cell = ''progress'', title = ''Progress''\<rparr>, \<lparr>id_cell = ''notes'', title = ''Notes''\<rparr>]
        {|''status'', ''owner''|} = ''1fr 1fr 12ch 9ch''"
proof -
  let ?hs = "[\<lparr>id_cell = ''status'', title = ''Status''\<rparr>, \<lparr>id_cell = ''owner'', title = ''Owner''\<rparr>, \<lparr>id_cell = ''progress'', title = ''Progress''\<rparr>, \<lparr>id_cell = ''notes'', title = ''Notes''\<rparr>]"
  let ?e = "{|''status'', ''owner''|}"
  note t = headerTemplate_equal_split [of ?hs ?e]
  have l: "2 < length ?hs" by simp
  have n12: "string_of_nat 12 = ''12''" by (simp add: string_of_nat.simps digit_char_def)
  have n9: "string_of_nat 9 = ''9''" by (simp add: string_of_nat.simps digit_char_def)
  have a: "headerTemplateArr ?hs ?e = [''1fr'', ''1fr'', ''12ch'', ''9ch'']"
    by (simp add: headerTemplateArr_def getCollapsedWidthCh_def n12 n9)
  have k0: "headerTemplateArr ?hs ?e ! 0 = ''1fr''"
    using t by simp
  have k2: "headerTemplateArr ?hs ?e ! 2 = ''12ch''"
    using t l by (simp add: n12)
  have tk: "tokens (headerTemplateStr ?hs ?e) = [''1fr'', ''1fr'', ''12ch'', ''9ch'']"
    using t a by simp
  have s: "headerTemplateStr ?hs ?e = ''1fr 1fr 12ch 9ch''"
    by (simp add: headerTemplateStr_def a)
  from l k0 k2 tk s show ?thesis by simp
qed


text \<open>
  C9, as stated, for every header list and expanded set. The swap revision is written for
  three columns. With headers A, B, C, D it gives 0px only to the columns whose id equals
  that of the first collapsed header: in the state A, B expanded, reached by one click on
  C, the collapsed column D gets 50%. In the initial state of the same headers, with D
  alone collapsed, the three expanded columns get 50% each, which is more than the row
  has.
\<close>

theorem valueTemplate_halves_four_headers_counterexample:
  "run_swap [\<lparr>id_cell = ''A'', title = ''A''\<rparr>, \<lparr>id_cell = ''B'', title = ''B''\<rparr>, \<lparr>id_cell = ''C'', title = ''C''\<rparr>, \<lparr>id_cell = ''D'', title = ''D''\<rparr>] [''C'']
     = {|''A'', ''B''|}
   \<and> id_cell ([\<lparr>id_cell = ''A'', title = ''A''\<rparr>, \<lparr>id_cell = ''B'', title = ''B''\<rparr>, \<lparr>id_cell = ''C'', title = ''C''\<rparr>, \<lparr>id_cell = ''D'', title = ''D''\<rparr>] ! 3)
       |\<notin>| {|''A'', ''B''|}
   \<and> templateArrs_halves [\<lparr>id_cell = ''A'', title = ''A''\<rparr>, \<lparr>id_cell = ''B'', title = ''B''\<rparr>, \<lparr>id_cell = ''C'', title = ''C''\<rparr>, \<lparr>id_cell = ''D'', title = ''D''\<rparr>]
       {|''A'', ''B''|}
     = Inr ([''50%'', ''calc(50% - 8ch)'', ''8ch'', ''calc(50% - 8ch)''], [''50%'', ''50%'', ''0px'', ''50%''])
   \<and> templates_halves [\<lparr>id_cell = ''A'', title = ''A''\<rparr>, \<lparr>id_cell = ''B'', title = ''B''\<rparr>, \<lparr>id_cell = ''C'', title = ''C''\<rparr>, \<lparr>id_cell = ''D'', title = ''D''\<rparr>]
       {|''A'', ''B''|}
     = Inr (''50% calc(50% - 8ch) 8ch calc(50% - 8ch)'', ''50% 50% 0px 50%'')
   \<and> expanded_init [\<lparr>id_cell = ''A'', title = ''A''\<rparr>, \<lparr>id_cell = ''B'', title = ''B''\<rparr>, \<lparr>id_cell = ''C'', title = ''C''\<rparr>, \<lparr>id_cell = ''D'', title = ''D''\<rparr>]
     = {|''A'', ''B'', ''C''|}
   \<and> map id_cell (collapsed [\<lparr>id_cell = ''A'', title = ''A''\<rparr>, \<lparr>id_cell = ''B'', title = ''B''\<rparr>, \<lparr>id_cell = ''C'', title = ''C''\<rparr>, \<lparr>id_cell = ''D'', title = ''D''\<rparr>]
       {|''A'', ''B'', ''C''|}) = [''D'']
   \<and> templateArrs_halves [\<lparr>id_cell = ''A'', title = ''A''\<rparr>, \<lparr>id_cell = ''B'', title = ''B''\<rparr>, \<lparr>id_cell = ''C'', title = ''C''\<rparr>, \<lparr>id_cell = ''D'', title = ''D''\<rparr>]
       {|''A'', ''B'', ''C''|}
     = Inr ([''50%'', ''calc(50% - 8ch)'', ''calc(50% - 8ch)'', ''8ch''], [''50%'', ''50%'', ''50%'', ''0px''])
   \<and> templates_halves [\<lparr>id_cell = ''A'', title = ''A''\<rparr>, \<lparr>id_cell = ''B'', title = ''B''\<rparr>, \<lparr>id_cell = ''C'', title = ''C''\<rparr>, \<lparr>id_cell = ''D'', title = ''D''\<rparr>]
       {|''A'', ''B'', ''C''|}
     = Inr (''50% calc(50% - 8ch) calc(50% - 8ch) 8ch'', ''50% 50% 50% 0px'')"
proof -
  let ?hs = "[\<lparr>id_cell = ''A'', title = ''A''\<rparr>, \<lparr>id_cell = ''B'', title = ''B''\<rparr>, \<lparr>id_cell = ''C'', title = ''C''\<rparr>, \<lparr>id_cell = ''D'', title = ''D''\<rparr>]"
  have r: "run_swap ?hs [''C''] = {|''A'', ''B''|}" by code_simp
  have n8: "string_of_nat 8 = ''8''" by (simp add: string_of_nat.simps digit_char_def)
  have a: "templateArrs_halves ?hs {|''A'', ''B''|}
     = Inr ([''50%'', ''calc(50% - 8ch)'', ''8ch'', ''calc(50% - 8ch)''], [''50%'', ''50%'', ''0px'', ''50%''])"
    by (simp add: templateArrs_halves_def getCollapsedWidthCh_def n8)
  have s: "templates_halves ?hs {|''A'', ''B''|}
     = Inr (''50% calc(50% - 8ch) 8ch calc(50% - 8ch)'', ''50% 50% 0px 50%'')"
    by (simp add: templates_halves_def a)
  have i: "expanded_init ?hs = {|''A'', ''B'', ''C''|}" by code_simp
  have c: "map id_cell (collapsed ?hs {|''A'', ''B'', ''C''|}) = [''D'']"
    by (simp add: collapsed_def)
  have a': "templateArrs_halves ?hs {|''A'', ''B'', ''C''|}
     = Inr ([''50%'', ''calc(50% - 8ch)'', ''calc(50% - 8ch)'', ''8ch''], [''50%'', ''50%'', ''50%'', ''0px''])"
    by (simp add: templateArrs_halves_def getCollapsedWidthCh_def n8)
  have s': "templates_halves ?hs {|''A'', ''B'', ''C''|}
     = Inr (''50% calc(50% - 8ch) calc(50% - 8ch) 8ch'', ''50% 50% 50% 0px'')"
    by (simp add: templates_halves_def a')
  from r a s i c a' s' show ?thesis by simp
qed

text \<open>
  C9, amended. In both revisions the value template has one token per header, in header
  order, as many as the header template, and the joined string read back at its blanks
  gives these tokens. In the plain revision every collapsed column's token is 0px and
  every expanded column's is 1fr. In the swap revision, when no header is collapsed every
  column gets 1fr; for exactly three headers of which exactly one is collapsed, its id
  not the empty string, the collapsed column gets 0px and the two expanded columns get
  50% each, so that the template holds exactly two halves and one empty slot.
\<close>

theorem valueTemplate_tokens:
  "length (valueTemplateArr headers expanded) = length headers
   \<and> length (headerTemplateArr headers expanded) = length headers
   \<and> (\<forall>k<length headers.
        valueTemplateArr headers expanded ! k =
          (if id_cell (headers ! k) |\<in>| expanded then ''1fr'' else ''0px''))
   \<and> tokens (valueTemplateStr headers expanded) = valueTemplateArr headers expanded
   \<and> (\<exists>ha va. templateArrs_halves headers expanded = Inr (ha, va)
         \<and> templates_halves headers expanded = Inr (join '' '' ha, join '' '' va)
         \<and> length ha = length headers \<and> length va = length headers
         \<and> tokens (join '' '' va) = va
         \<and> (collapsed headers expanded = [] \<longrightarrow> (\<forall>k<length headers. va ! k = ''1fr''))
         \<and> (length headers = 3 \<and> length (collapsed headers expanded) = 1
              \<and> (\<forall>h \<in> set (collapsed headers expanded). id_cell h \<noteq> []) \<longrightarrow>
             (\<forall>k<length headers.
                va ! k = (if id_cell (headers ! k) |\<in>| expanded then ''50%'' else ''0px''))
             \<and> length (filter (\<lambda>t. t = ''50%'') va) = 2
             \<and> length (filter (\<lambda>t. t = ''0px'') va) = 1))"
proof -
  have plain: "length (valueTemplateArr headers expanded) = length headers
     \<and> length (headerTemplateArr headers expanded) = length headers
     \<and> (\<forall>k<length headers.
          valueTemplateArr headers expanded ! k =
            (if id_cell (headers ! k) |\<in>| expanded then ''1fr'' else ''0px''))"
    by (simp add: valueTemplateArr_def headerTemplateArr_def)
  have toks: "tokens (valueTemplateStr headers expanded) = valueTemplateArr headers expanded"
    unfolding valueTemplateStr_def by (rule tokens_join) (rule valueTemplateArr_tokens)
  obtain ha va where hv: "templateArrs_halves headers expanded = Inr (ha, va)"
      and len: "length ha = length headers" "length va = length headers"
      and alph: "\<forall>t \<in> set va. t = ''1fr'' \<or> t = ''0px'' \<or> t = ''50%''"
    using templateArrs_halves_lengths [of headers expanded] by blast
  have str: "templates_halves headers expanded = Inr (join '' '' ha, join '' '' va)"
    by (simp add: templates_halves_def hv)
  have vt: "tokens (join '' '' va) = va"
    using alph by (rule halves_value_tokens)
  have none: "\<forall>k<length headers. va ! k = ''1fr''" if "collapsed headers expanded = []"
  proof -
    from templateArrs_halves_none_collapsed [OF that] hv
    have "va = map (\<lambda>_. ''1fr'') headers" by simp
    then show ?thesis by simp
  qed
  have one: "(\<forall>k<length headers.
                va ! k = (if id_cell (headers ! k) |\<in>| expanded then ''50%'' else ''0px''))
             \<and> length (filter (\<lambda>t. t = ''50%'') va) = 2
             \<and> length (filter (\<lambda>t. t = ''0px'') va) = 1"
    if three: "length headers = 3"
      and le: "length (collapsed headers expanded) = 1"
      and ne: "\<forall>h \<in> set (collapsed headers expanded). id_cell h \<noteq> []"
  proof -
    from le obtain c where c: "collapsed headers expanded = [c]"
      by (cases "collapsed headers expanded") auto
    with ne have "id_cell c \<noteq> []" by simp
    from templateArrs_halves_one_collapsed [OF c this] hv
    have va: "va = map (\<lambda>h. if id_cell h |\<in>| expanded then ''50%'' else ''0px'') headers"
      by auto
    have zero: "length (filter (\<lambda>t. t = ''0px'') va) = length (collapsed headers expanded)"
      unfolding va collapsed_def by (simp add: filter_map o_def)
    have half: "length (filter (\<lambda>t. t = ''50%'') va)
                  = length (filter (\<lambda>h. id_cell h |\<in>| expanded) headers)"
      unfolding va by (simp add: filter_map o_def)
    have "length (filter (\<lambda>h. id_cell h |\<in>| expanded) headers)
            + length (filter (\<lambda>h. \<not> id_cell h |\<in>| expanded) headers) = length headers"
      by (rule sum_length_filter_compl)
    with le three have "length (filter (\<lambda>h. id_cell h |\<in>| expanded) headers) = 2"
      by (simp add: collapsed_def)
    with zero half le va show ?thesis by simp
  qed
  from plain toks hv str len vt none one show ?thesis by blast
qed

theorem valueTemplate_tokens_witness:
  "length [\<lparr>id_cell = ''status'', title = ''Status''\<rparr>, \<lparr>id_cell = ''owner'', title = ''Owner''\<rparr>, \<lparr>id_cell = ''notes'', title = ''Notes''\<rparr>] = 3
   \<and> collapsed [\<lparr>id_cell = ''status'', title = ''Status''\<rparr>, \<lparr>id_cell = ''owner'', title = ''Owner''\<rparr>, \<lparr>id_cell = ''notes'', title = ''Notes''\<rparr>]
       {|''status'', ''owner''|} = [\<lparr>id_cell = ''notes'', title = ''Notes''\<rparr>]
   \<and> valueTemplateArr [\<lparr>id_cell = ''status'', title = ''Status''\<rparr>, \<lparr>id_cell = ''owner'', title = ''Owner''\<rparr>, \<lparr>id_cell = ''notes'', title = ''Notes''\<rparr>]
       {|''status'', ''owner''|} ! 2 = ''0px''
   \<and> valueTemplateArr [\<lparr>id_cell = ''status'', title = ''Status''\<rparr>, \<lparr>id_cell = ''owner'', title = ''Owner''\<rparr>, \<lparr>id_cell = ''notes'', title = ''Notes''\<rparr>]
       {|''status'', ''owner''|} ! 1 = ''1fr''
   \<and> templateArrs_halves [\<lparr>id_cell = ''status'', title = ''Status''\<rparr>, \<lparr>id_cell = ''owner'', title = ''Owner''\<rparr>, \<lparr>id_cell = ''notes'', title = ''Notes''\<rparr>]
       {|''status'', ''owner''|} = Inr ([''50%'', ''calc(50% - 9ch)'', ''9ch''], [''50%'', ''50%'', ''0px''])
   \<and> templates_halves [\<lparr>id_cell = ''status'', title = ''Status''\<rparr>, \<lparr>id_cell = ''owner'', title = ''Owner''\<rparr>, \<lparr>id_cell = ''notes'', title = ''Notes''\<rparr>]
       {|''status'', ''owner''|} = Inr (''50% calc(50% - 9ch) 9ch'', ''50% 50% 0px'')
   \<and> tokens ''50% 50% 0px'' = [''50%'', ''50%'', ''0px'']
   \<and> length (filter (\<lambda>t. t = ''50%'') [''50%'', ''50%'', ''0px'']) = 2
   \<and> length (filter (\<lambda>t. t = ''0px'') [''50%'', ''50%'', ''0px'']) = 1
   \<and> collapsed [\<lparr>id_cell = ''status'', title = ''Status''\<rparr>, \<lparr>id_cell = ''owner'', title = ''Owner''\<rparr>, \<lparr>id_cell = ''notes'', title = ''Notes''\<rparr>]
       {|''status'', ''owner'', ''notes''|} = []
   \<and> templateArrs_halves [\<lparr>id_cell = ''status'', title = ''Status''\<rparr>, \<lparr>id_cell = ''owner'', title = ''Owner''\<rparr>, \<lparr>id_cell = ''notes'', title = ''Notes''\<rparr>]
       {|''status'', ''owner'', ''notes''|} = Inr ([''1fr'', ''1fr'', ''1fr''], [''1fr'', ''1fr'', ''1fr''])
   \<and> templates_halves [\<lparr>id_cell = ''status'', title = ''Status''\<rparr>, \<lparr>id_cell = ''owner'', title = ''Owner''\<rparr>, \<lparr>id_cell = ''notes'', title = ''Notes''\<rparr>]
       {|''status'', ''owner'', ''notes''|} = Inr (''1fr 1fr 1fr'', ''1fr 1fr 1fr'')"
proof -
  let ?hs = "[\<lparr>id_cell = ''status'', title = ''Status''\<rparr>, \<lparr>id_cell = ''owner'', title = ''Owner''\<rparr>, \<lparr>id_cell = ''notes'', title = ''Notes''\<rparr>]"
  let ?e = "{|''status'', ''owner''|}"
  let ?all = "{|''status'', ''owner'', ''notes''|}"
  have l: "length ?hs = 3" by simp
  have c: "collapsed ?hs ?e = [\<lparr>id_cell = ''notes'', title = ''Notes''\<rparr>]"
    by (simp add: collapsed_def)
  have c0: "collapsed ?hs ?all = []"
    by (simp add: collapsed_def)
  have n9: "string_of_nat 9 = ''9''" by (simp add: string_of_nat.simps digit_char_def)
  have a: "templateArrs_halves ?hs ?e
             = Inr ([''50%'', ''calc(50% - 9ch)'', ''9ch''], [''50%'', ''50%'', ''0px''])"
    by (simp add: templateArrs_halves_def getCollapsedWidthCh_def n9)
  have a0: "templateArrs_halves ?hs ?all = Inr ([''1fr'', ''1fr'', ''1fr''], [''1fr'', ''1fr'', ''1fr''])"
    by (simp add: templateArrs_halves_def)
  from valueTemplate_tokens [of ?hs ?e]
  have p: "\<forall>k<length ?hs. valueTemplateArr ?hs ?e ! k =
             (if id_cell (?hs ! k) |\<in>| ?e then ''1fr'' else ''0px'')"
    and s: "templates_halves ?hs ?e = Inr (''50% calc(50% - 9ch) 9ch'', ''50% 50% 0px'')"
    and t: "tokens (join '' '' [''50%'', ''50%'', ''0px'']) = [''50%'', ''50%'', ''0px'']"
    and h: "length ?hs = 3 \<and> length (collapsed ?hs ?e) = 1
              \<and> (\<forall>h \<in> set (collapsed ?hs ?e). id_cell h \<noteq> []) \<longrightarrow>
            length (filter (\<lambda>t. t = ''50%'') [''50%'', ''50%'', ''0px'']) = 2
            \<and> length (filter (\<lambda>t. t = ''0px'') [''50%'', ''50%'', ''0px'']) = 1"
    unfolding a by auto
  from h l c have f: "length (filter (\<lambda>t. t = ''50%'') [''50%'', ''50%'', ''0px'']) = 2
      \<and> length (filter (\<lambda>t. t = ''0px'') [''50%'', ''50%'', ''0px'']) = 1"
    by simp
  from valueTemplate_tokens [of ?hs ?all]
  have s0: "templates_halves ?hs ?all = Inr (''1fr 1fr 1fr'', ''1fr 1fr 1fr'')"
    unfolding a0 by auto
  from p have k2: "valueTemplateArr ?hs ?e ! 2 = ''0px''" by simp
  from p have k1: "valueTemplateArr ?hs ?e ! 1 = ''1fr''" by simp
  from l c k2 k1 a s t f c0 a0 s0 show ?thesis by simp
qed

end
